theory Spec2Isabelle
  imports Complex_Main "HOL-Library.Sublist"
begin

section \<open>Jury deliberation and evidence impact of the courtroom simulation\<close>

text \<open>
  The development embeds the jury engine of \<^verbatim>\<open>game_logic.py\<close> (classes \<^verbatim>\<open>Juror\<close>,
  \<^verbatim>\<open>Jury\<close> and the places of \<^verbatim>\<open>Game\<close> that touch a juror) and
  \<^verbatim>\<open>Evidence.calculate_impact\<close> of \<^verbatim>\<open>game_objects.py\<close>.

  Python numbers (ints and floats mixed freely by the source) are read as real numbers:
  rounding, infinities and NaN of the floating-point representation are outside the model.
  Exceptions are values of \<open>py_error + 'a\<close>, with \<open>Inl\<close> the exception.
\<close>

subsection \<open>Data\<close>

datatype py_error = KeyError | TypeError

text \<open>
  The values a metadata dictionary loaded from a JSON template holds under the keys the
  engine reads: a number, a string, a list of strings, or \<^verbatim>\<open>None\<close>.
\<close>

datatype meta_value = MNum real | MStr string | MList "string list" | MNone

text \<open>Class \<^verbatim>\<open>Evidence\<close>: the attribute \<^verbatim>\<open>type\<close> is the field \<open>etype\<close>.\<close>

record evidence =
  etype :: string
  metadata :: "string \<rightharpoonup> meta_value"
  authenticated :: bool
  description :: string

text \<open>
  Class \<^verbatim>\<open>Juror\<close>: the attribute \<^verbatim>\<open>id\<close> is the field \<open>jid\<close>. The attribute
  \<^verbatim>\<open>memory\<close> is initialised to the empty list and never read or written again, and is
  left out.
\<close>

record juror =
  jid :: int
  personality :: string
  bias :: string
  sentiment :: real
  persuasiveness :: real

text \<open>
  The case-context dictionary: the engine reads the key \<^verbatim>\<open>special_conditions\<close> only;
  \<open>None\<close> is the absent key.
\<close>

record case_context =
  special_conditions :: "string list option"

text \<open>
  The dictionaries appended to \<^verbatim>\<open>Jury.trial_events\<close>: by \<^verbatim>\<open>Jury.assess_case\<close>
  (evidence, context and the impact computed for one juror), by
  \<^verbatim>\<open>Game.examine_witnesses\<close> and by \<^verbatim>\<open>Game.opening_statements\<close>. \<open>event_type\<close>
  is the value under the key \<^verbatim>\<open>type\<close>.
\<close>

datatype trial_event =
    EvidencePresented evidence case_context real
  | WitnessTestimony real
  | OpeningStatement real

fun event_type :: "trial_event \<Rightarrow> string" where
  "event_type (EvidencePresented ev ctx imp) = ''evidence_presented''"
| "event_type (WitnessTestimony imp) = ''witness_testimony''"
| "event_type (OpeningStatement imp) = ''opening_statement''"

record jury =
  jurors :: "juror list"
  trial_events :: "trial_event list"

subsection \<open>Dictionary access\<close>

text \<open>\<^verbatim>\<open>d[k]\<close> raises \<^verbatim>\<open>KeyError\<close> on a missing key; \<^verbatim>\<open>d.get(k, default)\<close> does not.\<close>

definition getitem :: "('k \<rightharpoonup> 'v) \<Rightarrow> 'k \<Rightarrow> py_error + 'v" where
  "getitem d k = (case d k of None \<Rightarrow> Inl KeyError | Some v \<Rightarrow> Inr v)"

definition dict_get :: "('k \<rightharpoonup> 'v) \<Rightarrow> 'k \<Rightarrow> 'v \<Rightarrow> 'v" where
  "dict_get d k dflt = (case d k of None \<Rightarrow> dflt | Some v \<Rightarrow> v)"

subsection \<open>\<^verbatim>\<open>Evidence.calculate_impact\<close>\<close>

definition personality_multipliers :: "string \<rightharpoonup> (string \<rightharpoonup> real)" where
  "personality_multipliers =
     [''Analytical'' \<mapsto> [''Digital'' \<mapsto> 1.5, ''Physical'' \<mapsto> 1.2, ''Testimonial'' \<mapsto> 0.8],
      ''Empathetic'' \<mapsto> [''Testimonial'' \<mapsto> 1.5, ''Physical'' \<mapsto> 1.0, ''Digital'' \<mapsto> 0.8],
      ''Skeptical'' \<mapsto> [''Digital'' \<mapsto> 1.0, ''Physical'' \<mapsto> 1.0, ''Testimonial'' \<mapsto> 0.7],
      ''DEFAULT'' \<mapsto> [''Digital'' \<mapsto> 1.0, ''Physical'' \<mapsto> 1.0, ''Testimonial'' \<mapsto> 1.0]]"

definition bias_modifiers :: "string \<rightharpoonup> (string \<rightharpoonup> real)" where
  "bias_modifiers =
     [''Favor Evidence-Based Arguments'' \<mapsto>
        [''Digital'' \<mapsto> 1.3, ''Physical'' \<mapsto> 1.2, ''Testimonial'' \<mapsto> 0.9],
      ''Skeptical'' \<mapsto> [''Digital'' \<mapsto> 0.9, ''Physical'' \<mapsto> 0.9, ''Testimonial'' \<mapsto> 0.7],
      ''Empathetic'' \<mapsto> [''Digital'' \<mapsto> 0.8, ''Physical'' \<mapsto> 0.9, ''Testimonial'' \<mapsto> 1.3],
      ''DEFAULT'' \<mapsto> [''Digital'' \<mapsto> 1.0, ''Physical'' \<mapsto> 1.0, ''Testimonial'' \<mapsto> 1.0]]"

text \<open>
  \<^verbatim>\<open>table.get(key, {}).get(self.type, table["DEFAULT"][self.type])\<close>: Python evaluates
  the argument \<^verbatim>\<open>table["DEFAULT"][self.type]\<close> before the outer \<^verbatim>\<open>get\<close> is called, so
  a type that the DEFAULT row lacks raises \<^verbatim>\<open>KeyError\<close> whatever the key is.
\<close>

definition table_lookup ::
  "(string \<rightharpoonup> (string \<rightharpoonup> real)) \<Rightarrow> string \<Rightarrow> string \<Rightarrow> py_error + real" where
  "table_lookup table key ty =
     (case getitem table ''DEFAULT'' of
        Inl e \<Rightarrow> Inl e
      | Inr default_row \<Rightarrow>
          (case getitem default_row ty of
             Inl e \<Rightarrow> Inl e
           | Inr dflt \<Rightarrow> Inr (dict_get (dict_get table key Map.empty) ty dflt)))"

text \<open>
  The product \<^verbatim>\<open>base_impact * personality_multiplier * bias_modifier\<close>: a float times a
  string, a list or \<^verbatim>\<open>None\<close> raises \<^verbatim>\<open>TypeError\<close>.
\<close>

fun times_floats :: "meta_value \<Rightarrow> real \<Rightarrow> real \<Rightarrow> py_error + real" where
  "times_floats (MNum b) p m = Inr (b * p * m)"
| "times_floats v p m = Inl TypeError"

definition calculate_impact :: "evidence \<Rightarrow> juror \<Rightarrow> py_error + real" where
  "calculate_impact self juror =
     (case getitem (metadata self) ''impact_metric'' of
        Inl e \<Rightarrow> Inl e
      | Inr base_impact \<Rightarrow>
          (case table_lookup personality_multipliers (personality juror) (etype self) of
             Inl e \<Rightarrow> Inl e
           | Inr personality_multiplier \<Rightarrow>
               (case table_lookup bias_modifiers (bias juror) (etype self) of
                  Inl e \<Rightarrow> Inl e
                | Inr bias_modifier \<Rightarrow>
                    times_floats base_impact personality_multiplier bias_modifier)))"

subsection \<open>Class \<^verbatim>\<open>Juror\<close>\<close>

definition evaluate_evidence :: "juror \<Rightarrow> evidence \<Rightarrow> case_context \<Rightarrow> py_error + juror" where
  "evaluate_evidence self ev ctx =
     (case calculate_impact ev self of
        Inl e \<Rightarrow> Inl e
      | Inr impact \<Rightarrow>
          (let conds = (case special_conditions ctx of None \<Rightarrow> [] | Some cs \<Rightarrow> cs);
               impact1 =
                 (if ''media_attention'' \<in> set conds then
                    (if bias self = ''Favor Evidence-Based Arguments'' then impact * 1.1
                     else if bias self = ''Empathetic'' then impact * 0.9
                     else impact)
                  else impact);
               impact2 =
                 (if ''political_pressure'' \<in> set conds then
                    (if bias self = ''Skeptical'' then impact1 * 1.1
                     else if bias self = ''Empathetic'' then impact1 * 0.9
                     else impact1)
                  else impact1)
           in Inr (self\<lparr>sentiment := sentiment self + impact2\<rparr>)))"

text \<open>The body of the first loop of \<^verbatim>\<open>deliberate\<close>, for one event.\<close>

fun deliberate_event :: "juror \<Rightarrow> trial_event \<Rightarrow> py_error + juror" where
  "deliberate_event self (EvidencePresented ev ctx imp) =
     (if event_type (EvidencePresented ev ctx imp) = ''evidence_presented''
      then evaluate_evidence self ev ctx
      else if event_type (EvidencePresented ev ctx imp) = ''witness_testimony''
      then Inr (self\<lparr>sentiment := sentiment self + imp\<rparr>)
      else Inr self)"
| "deliberate_event self (WitnessTestimony imp) =
     (if event_type (WitnessTestimony imp) = ''evidence_presented''
      then Inr self
      else if event_type (WitnessTestimony imp) = ''witness_testimony''
      then Inr (self\<lparr>sentiment := sentiment self + imp\<rparr>)
      else Inr self)"
| "deliberate_event self (OpeningStatement imp) =
     (if event_type (OpeningStatement imp) = ''evidence_presented''
      then Inr self
      else if event_type (OpeningStatement imp) = ''witness_testimony''
      then Inr (self\<lparr>sentiment := sentiment self + imp\<rparr>)
      else Inr self)"

text \<open>The first loop of \<^verbatim>\<open>deliberate\<close>: an exception leaves the loop.\<close>

fun deliberate_events :: "juror \<Rightarrow> trial_event list \<Rightarrow> py_error + juror" where
  "deliberate_events self [] = Inr self"
| "deliberate_events self (event # events) =
     (case deliberate_event self event of
        Inl e \<Rightarrow> Inl e
      | Inr self' \<Rightarrow> deliberate_events self' events)"

text \<open>The local variable \<^verbatim>\<open>influence\<close> of the second loop.\<close>

definition influence :: "juror \<Rightarrow> juror \<Rightarrow> real" where
  "influence self other_juror = (persuasiveness other_juror - persuasiveness self) * 0.5"

fun deliberate_peers :: "juror \<Rightarrow> juror list \<Rightarrow> juror" where
  "deliberate_peers self [] = self"
| "deliberate_peers self (other_juror # rest) =
     (if jid self \<noteq> jid other_juror
      then deliberate_peers (self\<lparr>sentiment := sentiment self + influence self other_juror\<rparr>) rest
      else deliberate_peers self rest)"

definition deliberate :: "juror \<Rightarrow> trial_event list \<Rightarrow> juror list \<Rightarrow> py_error + juror" where
  "deliberate self events all_jurors =
     (case deliberate_events self events of
        Inl e \<Rightarrow> Inl e
      | Inr self1 \<Rightarrow>
          (let self2 = deliberate_peers self1 all_jurors
           in Inr (self2\<lparr>sentiment := max (min (sentiment self2) 5) (- 5)\<rparr>)))"

subsection \<open>Class \<^verbatim>\<open>Jury\<close>\<close>

definition get_verdict :: "jury \<Rightarrow> string" where
  "get_verdict self =
     (let total_sentiment = sum_list (map sentiment (jurors self))
      in if total_sentiment > 0 then ''Guilty'' else ''Not Guilty'')"

text \<open>
  \<^verbatim>\<open>deliberate_phase\<close> calls \<^verbatim>\<open>juror.deliberate(self.trial_events, self.jurors)\<close> on the
  juror objects of the list, one after the other. Each call writes to the object it is
  called on and is handed the list of the same objects, so the list is the store: position
  \<open>i\<close> holds the state of the \<open>i\<close>-th object, a call on position \<open>i\<close> reads the list as it
  is at that moment and replaces position \<open>i\<close>. \<open>deliberate_in_order\<close> makes the calls in
  the order of a list of positions; the source's loop is the order \<open>[0..<n]\<close>.
\<close>

fun deliberate_in_order ::
  "nat list \<Rightarrow> trial_event list \<Rightarrow> juror list \<Rightarrow> py_error + juror list" where
  "deliberate_in_order [] events js = Inr js"
| "deliberate_in_order (i # order) events js =
     (case deliberate (js ! i) events js of
        Inl e \<Rightarrow> Inl e
      | Inr self' \<Rightarrow> deliberate_in_order order events (js[i := self']))"

definition deliberate_phase :: "jury \<Rightarrow> py_error + jury" where
  "deliberate_phase self =
     (case deliberate_in_order [0..<length (jurors self)] (trial_events self) (jurors self) of
        Inl e \<Rightarrow> Inl e
      | Inr js \<Rightarrow> Inr (self\<lparr>jurors := js\<rparr>))"

text \<open>The same phase with the calls made in another order of the positions.\<close>

definition deliberate_phase_in_order :: "nat list \<Rightarrow> jury \<Rightarrow> py_error + jury" where
  "deliberate_phase_in_order order self =
     (case deliberate_in_order order (trial_events self) (jurors self) of
        Inl e \<Rightarrow> Inl e
      | Inr js \<Rightarrow> Inr (self\<lparr>jurors := js\<rparr>))"

subsection \<open>The place of class \<^verbatim>\<open>Game\<close> that writes a juror's sentiment\<close>

text \<open>\<^verbatim>\<open>for juror in self.jury.jurors: juror.sentiment += d\<close>.\<close>

definition add_to_every_juror :: "real \<Rightarrow> juror list \<Rightarrow> juror list" where
  "add_to_every_juror d js = map (\<lambda>juror. juror\<lparr>sentiment := sentiment juror + d\<rparr>) js"

text \<open>
  The synergy check of \<^verbatim>\<open>Game.examine_witnesses\<close>, two nested loops over the items of
  the dictionary \<^verbatim>\<open>selected_evidence\<close> (description and evidence, in insertion order).
  \<^verbatim>\<open>x in v\<close> is membership in a list, the substring test in a string and a
  \<^verbatim>\<open>TypeError\<close> otherwise.

  The branches of \<^verbatim>\<open>Game.raise_objection\<close> and of the opposing objection in
  \<^verbatim>\<open>Game.examine_witnesses\<close> that add or subtract 1 come after the call of
  \<^verbatim>\<open>Game.judge_ruling\<close>. That method constructs \<^verbatim>\<open>PromptManager(self.config)\<close>, and
  \<^verbatim>\<open>PromptManager.__init__\<close> of \<^verbatim>\<open>ai_module.py\<close> takes no argument: the call raises
  \<^verbatim>\<open>TypeError\<close> before a ruling exists, and the branches are not embedded.
\<close>

fun py_in :: "string \<Rightarrow> meta_value \<Rightarrow> py_error + bool" where
  "py_in s (MList xs) = Inr (s \<in> set xs)"
| "py_in s (MStr t) = Inr (sublist s t)"
| "py_in s (MNum r) = Inl TypeError"
| "py_in s MNone = Inl TypeError"

fun synergy_activated :: "string \<times> evidence \<Rightarrow> string \<times> evidence \<Rightarrow> py_error + bool" where
  "synergy_activated (desc, ev) (other_desc, other_evidence) =
     (if desc = other_desc then Inr False
      else (case getitem (metadata ev) ''synergy'' of
        Inl e \<Rightarrow> Inl e
      | Inr syn \<Rightarrow>
          (if syn = MNone then Inr False
           else (case getitem (metadata other_evidence) ''synergy'' of
             Inl e \<Rightarrow> Inl e
           | Inr other_syn \<Rightarrow>
               (if other_syn = MNone then Inr False
                else (case py_in (etype other_evidence) syn of
                  Inl e \<Rightarrow> Inl e
                | Inr found \<Rightarrow>
                    (if found then py_in (etype ev) other_syn else Inr False)))))))"

fun synergy_inner ::
  "string \<times> evidence \<Rightarrow> (string \<times> evidence) list \<Rightarrow> juror list \<Rightarrow> py_error + juror list" where
  "synergy_inner item [] js = Inr js"
| "synergy_inner item (other # rest) js =
     (case synergy_activated item other of
        Inl e \<Rightarrow> Inl e
      | Inr activated \<Rightarrow>
          synergy_inner item rest (if activated then add_to_every_juror 1 js else js))"

fun synergy_outer ::
  "(string \<times> evidence) list \<Rightarrow> (string \<times> evidence) list \<Rightarrow> juror list \<Rightarrow>
   py_error + juror list" where
  "synergy_outer [] selected js = Inr js"
| "synergy_outer (item # items) selected js =
     (case synergy_inner item selected js of
        Inl e \<Rightarrow> Inl e
      | Inr js' \<Rightarrow> synergy_outer items selected js')"

definition examine_witnesses_synergy ::
  "(string \<times> evidence) list \<Rightarrow> jury \<Rightarrow> py_error + jury" where
  "examine_witnesses_synergy selected_evidence self =
     (case synergy_outer selected_evidence selected_evidence (jurors self) of
        Inl e \<Rightarrow> Inl e
      | Inr js \<Rightarrow> Inr (self\<lparr>jurors := js\<rparr>))"

subsection \<open>The specification's reading of the lookups and adjustments\<close>

text \<open>
  The multiplier for a key and a kind as the specification words it: the entry of the
  key's row for the kind; when the key has no row or the row has no entry for the kind,
  the entry of the DEFAULT row.
\<close>

definition lookup_with_default ::
  "(string \<rightharpoonup> (string \<rightharpoonup> real)) \<Rightarrow> string \<Rightarrow> string \<Rightarrow> real option" where
  "lookup_with_default table key kind =
     (let fallback = (case table ''DEFAULT'' of None \<Rightarrow> None | Some row \<Rightarrow> row kind)
      in case table key of
           None \<Rightarrow> fallback
         | Some row \<Rightarrow> (case row kind of None \<Rightarrow> fallback | Some v \<Rightarrow> Some v))"

text \<open>The factors the specification names for the two special conditions.\<close>

definition has_condition :: "case_context \<Rightarrow> string \<Rightarrow> bool" where
  "has_condition ctx c =
     (case special_conditions ctx of None \<Rightarrow> False | Some cs \<Rightarrow> c \<in> set cs)"

definition media_factor :: "case_context \<Rightarrow> juror \<Rightarrow> real" where
  "media_factor ctx j =
     (if has_condition ctx ''media_attention'' \<and> bias j = ''Favor Evidence-Based Arguments''
      then 1.1
      else if has_condition ctx ''media_attention'' \<and> bias j = ''Empathetic'' then 0.9
      else 1)"

definition political_factor :: "case_context \<Rightarrow> juror \<Rightarrow> real" where
  "political_factor ctx j =
     (if has_condition ctx ''political_pressure'' \<and> bias j = ''Skeptical'' then 1.1
      else if has_condition ctx ''political_pressure'' \<and> bias j = ''Empathetic'' then 0.9
      else 1)"

text \<open>
  Evidence on which \<open>calculate_impact\<close> returns: a numeric \<^verbatim>\<open>impact_metric\<close> and one of
  the three kinds of the DEFAULT rows.
\<close>

definition computable :: "evidence \<Rightarrow> bool" where
  "computable ev =
     ((case metadata ev ''impact_metric'' of Some (MNum b) \<Rightarrow> True | _ \<Rightarrow> False) \<and>
      (etype ev = ''Digital'' \<or> etype ev = ''Physical'' \<or> etype ev = ''Testimonial''))"

fun replayable :: "trial_event \<Rightarrow> bool" where
  "replayable (EvidencePresented ev ctx imp) = computable ev"
| "replayable (WitnessTestimony imp) = True"
| "replayable (OpeningStatement imp) = True"

text \<open>The peers of a juror in a list: the entries with another id.\<close>

definition others :: "juror \<Rightarrow> juror list \<Rightarrow> juror list" where
  "others self all_jurors = filter (\<lambda>other_juror. jid self \<noteq> jid other_juror) all_jurors"

text \<open>What a call on a juror leaves alone: identity, personality, bias and persuasiveness.\<close>

definition same_traits :: "juror \<Rightarrow> juror \<Rightarrow> bool" where
  "same_traits s t \<longleftrightarrow>
     jid s = jid t \<and> personality s = personality t \<and> bias s = bias t \<and>
     persuasiveness s = persuasiveness t"

subsection \<open>Sample values\<close>

definition juror_a :: juror where
  "juror_a = \<lparr>jid = 1, personality = ''Analytical'', bias = ''Favor Evidence-Based Arguments'',
              sentiment = 0, persuasiveness = 0.5\<rparr>"

definition juror_b :: juror where
  "juror_b = \<lparr>jid = 2, personality = ''Empathetic'', bias = ''Empathetic'',
              sentiment = 0, persuasiveness = 1.5\<rparr>"

definition juror_c :: juror where
  "juror_c = \<lparr>jid = 3, personality = ''Skeptical'', bias = ''Skeptical'',
              sentiment = 7, persuasiveness = 1\<rparr>"

definition juror_unknown :: juror where
  "juror_unknown = \<lparr>jid = 4, personality = ''Stoic'', bias = ''Skeptical'',
                    sentiment = 0, persuasiveness = 1.25\<rparr>"

definition digital_evidence :: evidence where
  "digital_evidence =
     \<lparr>etype = ''Digital'',
      metadata = [''subtype'' \<mapsto> MStr ''Email'', ''description'' \<mapsto> MStr ''Server logs'',
                  ''impact_metric'' \<mapsto> MNum 2, ''synergy'' \<mapsto> MList [''Testimonial'']],
      authenticated = True, description = ''Digital evidence''\<rparr>"

definition testimonial_evidence :: evidence where
  "testimonial_evidence =
     \<lparr>etype = ''Testimonial'',
      metadata = [''subtype'' \<mapsto> MStr ''Statement'', ''description'' \<mapsto> MStr ''Clerk'',
                  ''impact_metric'' \<mapsto> MNum 1, ''synergy'' \<mapsto> MList [''Digital'']],
      authenticated = True, description = ''Testimonial evidence''\<rparr>"

text \<open>The evidence template of \<^verbatim>\<open>tests/test_court_session.py\<close>.\<close>

definition test_evidence :: evidence where
  "test_evidence =
     \<lparr>etype = ''Test'',
      metadata = [''subtype'' \<mapsto> MStr ''Test'', ''description'' \<mapsto> MStr ''Test Description'',
                  ''impact_metric'' \<mapsto> MNum 1, ''synergy'' \<mapsto> MList []],
      authenticated = True, description = ''Evidence''\<rparr>"

text \<open>Evidence of a kind outside the three of the tables.\<close>

definition documentary_evidence :: evidence where
  "documentary_evidence =
     \<lparr>etype = ''Documentary'',
      metadata = [''subtype'' \<mapsto> MStr ''Ledger'', ''description'' \<mapsto> MStr ''Accounts'',
                  ''impact_metric'' \<mapsto> MNum 3, ''synergy'' \<mapsto> MList []],
      authenticated = True, description = ''Evidence''\<rparr>"

definition both_conditions :: case_context where
  "both_conditions = \<lparr>special_conditions = Some [''media_attention'', ''political_pressure'']\<rparr>"

definition sample_jury :: jury where
  "sample_jury = \<lparr>jurors = [juror_a, juror_b, juror_c], trial_events = [WitnessTestimony 2]\<rparr>"

definition sample_selection :: "(string \<times> evidence) list" where
  "sample_selection = [(''Server logs'', digital_evidence), (''Clerk'', testimonial_evidence)]"

section \<open>Properties\<close>

subsection \<open>Verdict\<close>

text \<open>
  Claim C1. \<open>get_verdict\<close> answers \<open>''Guilty''\<close> exactly when the sum of the jurors'
  sentiments is strictly positive and \<open>''Not Guilty''\<close> exactly when it is not; a sum of
  zero gives \<open>''Not Guilty''\<close>.
\<close>

theorem get_verdict_guilty_iff_positive:
  "(get_verdict j = ''Guilty'' \<longleftrightarrow> sum_list (map sentiment (jurors j)) > 0) \<and>
   (get_verdict j = ''Not Guilty'' \<longleftrightarrow> \<not> sum_list (map sentiment (jurors j)) > 0) \<and>
   (sum_list (map sentiment (jurors j)) = 0 \<longrightarrow> get_verdict j = ''Not Guilty'')"
  by (simp add: get_verdict_def Let_def)

theorem get_verdict_tie_witness:
  "sum_list (map sentiment (jurors
      \<lparr>jurors = [\<lparr>jid = 1, personality = ''Analytical'', bias = ''Skeptical'',
                   sentiment = 2, persuasiveness = 1\<rparr>,
                 \<lparr>jid = 2, personality = ''Empathetic'', bias = ''Empathetic'',
                   sentiment = - 2, persuasiveness = 1\<rparr>],
       trial_events = []\<rparr>)) = 0 \<and>
   get_verdict
      \<lparr>jurors = [\<lparr>jid = 1, personality = ''Analytical'', bias = ''Skeptical'',
                   sentiment = 2, persuasiveness = 1\<rparr>,
                 \<lparr>jid = 2, personality = ''Empathetic'', bias = ''Empathetic'',
                   sentiment = - 2, persuasiveness = 1\<rparr>],
       trial_events = []\<rparr> = ''Not Guilty''"
  using get_verdict_guilty_iff_positive
    [of "\<lparr>jurors = [\<lparr>jid = 1, personality = ''Analytical'', bias = ''Skeptical'',
                   sentiment = 2, persuasiveness = 1\<rparr>,
                 \<lparr>jid = 2, personality = ''Empathetic'', bias = ''Empathetic'',
                   sentiment = - 2, persuasiveness = 1\<rparr>],
       trial_events = []\<rparr>"]
  by simp

subsection \<open>Evidence impact\<close>

text \<open>
  The source fetches the DEFAULT entry before it looks at the row of the key; the
  specification falls back to it only when the row has no entry. The two agree on a table
  whose rows have no kind that the DEFAULT row lacks.
\<close>

lemma lookup_refines:
  assumes d: "T ''DEFAULT'' = Some drow"
    and rows: "\<And>key row. T key = Some row \<Longrightarrow> dom row \<subseteq> dom drow"
    and l: "lookup_with_default T key kind = Some p"
  shows "table_lookup T key kind = Inr p"
proof (cases "T key")
  case None
  with d l show ?thesis
    by (simp add: lookup_with_default_def table_lookup_def getitem_def dict_get_def)
next
  case (Some row)
  show ?thesis
  proof (cases "row kind")
    case None
    with Some d l show ?thesis
      by (simp add: lookup_with_default_def table_lookup_def getitem_def dict_get_def)
  next
    case (Some v)
    with rows[OF \<open>T key = Some row\<close>] obtain dv where "drow kind = Some dv" by blast
    with Some \<open>T key = Some row\<close> d l show ?thesis
      by (simp add: lookup_with_default_def table_lookup_def getitem_def dict_get_def)
  qed
qed

lemma personality_default:
  "personality_multipliers ''DEFAULT'' =
     Some [''Digital'' \<mapsto> 1.0, ''Physical'' \<mapsto> 1.0, ''Testimonial'' \<mapsto> 1.0]"
  by (simp add: personality_multipliers_def)

lemma personality_rows:
  "personality_multipliers key = Some row \<Longrightarrow>
   dom row \<subseteq> {''Digital'', ''Physical'', ''Testimonial''}"
  unfolding personality_multipliers_def by (auto split: if_splits)

lemma bias_default:
  "bias_modifiers ''DEFAULT'' =
     Some [''Digital'' \<mapsto> 1.0, ''Physical'' \<mapsto> 1.0, ''Testimonial'' \<mapsto> 1.0]"
  by (simp add: bias_modifiers_def)

lemma bias_rows:
  "bias_modifiers key = Some row \<Longrightarrow> dom row \<subseteq> {''Digital'', ''Physical'', ''Testimonial''}"
  unfolding bias_modifiers_def by (auto split: if_splits)

lemma personality_refines:
  "lookup_with_default personality_multipliers key kind = Some p \<Longrightarrow>
   table_lookup personality_multipliers key kind = Inr p"
  using lookup_refines[where T = personality_multipliers and key = key and kind = kind and p = p,
      OF personality_default]
  by (auto dest: personality_rows)

lemma bias_refines:
  "lookup_with_default bias_modifiers key kind = Some m \<Longrightarrow>
   table_lookup bias_modifiers key kind = Inr m"
  using lookup_refines[where T = bias_modifiers and key = key and kind = kind and p = m,
      OF bias_default]
  by (auto dest: bias_rows)

text \<open>Whether a table lookup returns depends on the kind alone.\<close>

lemma table_lookup_personality_cases:
  "(kind \<in> {''Digital'', ''Physical'', ''Testimonial''} \<and>
      (\<exists>p. table_lookup personality_multipliers key kind = Inr p)) \<or>
   (kind \<notin> {''Digital'', ''Physical'', ''Testimonial''} \<and>
      table_lookup personality_multipliers key kind = Inl KeyError)"
  by (auto simp: table_lookup_def personality_default getitem_def)

lemma table_lookup_bias_cases:
  "(kind \<in> {''Digital'', ''Physical'', ''Testimonial''} \<and>
      (\<exists>p. table_lookup bias_modifiers key kind = Inr p)) \<or>
   (kind \<notin> {''Digital'', ''Physical'', ''Testimonial''} \<and>
      table_lookup bias_modifiers key kind = Inl KeyError)"
  by (auto simp: table_lookup_def bias_default getitem_def)

text \<open>
  Where the lookup with fallback finds the multiplier and the modifier, the source returns
  the product.
\<close>

lemma calculate_impact_refines_lookup:
  assumes "metadata e ''impact_metric'' = Some (MNum b)"
    and "lookup_with_default personality_multipliers (personality j) (etype e) = Some p"
    and "lookup_with_default bias_modifiers (bias j) (etype e) = Some m"
  shows "calculate_impact e j = Inr (b * p * m)"
  using assms
  by (simp add: calculate_impact_def getitem_def personality_refines bias_refines)

text \<open>
  On a kind of the DEFAULT row the lookup with fallback always finds an entry, and for a
  key without a row it is the DEFAULT entry.
\<close>

lemma lookup_with_default_finds:
  assumes "T ''DEFAULT'' = Some drow" and "drow kind = Some dv"
  shows "\<exists>p. lookup_with_default T key kind = Some p \<and> (T key = None \<longrightarrow> p = dv)"
  using assms
  by (auto simp: lookup_with_default_def Let_def split: option.splits)

lemma default_row_entry:
  assumes "kind \<in> {''Digital'', ''Physical'', ''Testimonial''}"
  shows "[''Digital'' \<mapsto> 1.0, ''Physical'' \<mapsto> 1.0, ''Testimonial'' \<mapsto> (1.0 :: real)] kind
           = Some 1"
proof -
  from assms consider "kind = ''Digital''" | "kind = ''Physical''" | "kind = ''Testimonial''"
    by blast
  then show ?thesis by cases simp_all
qed

lemma personality_lookup_finds:
  assumes "kind \<in> {''Digital'', ''Physical'', ''Testimonial''}"
  shows "\<exists>p. lookup_with_default personality_multipliers key kind = Some p \<and>
             (personality_multipliers key = None \<longrightarrow> p = 1)"
  using lookup_with_default_finds[where T = personality_multipliers and key = key
      and kind = kind and dv = 1
      and drow = "[''Digital'' \<mapsto> 1.0, ''Physical'' \<mapsto> 1.0, ''Testimonial'' \<mapsto> 1.0]",
      OF personality_default default_row_entry[OF assms]] .

lemma bias_lookup_finds:
  assumes "kind \<in> {''Digital'', ''Physical'', ''Testimonial''}"
  shows "\<exists>m. lookup_with_default bias_modifiers key kind = Some m \<and>
             (bias_modifiers key = None \<longrightarrow> m = 1)"
  using lookup_with_default_finds[where T = bias_modifiers and key = key
      and kind = kind and dv = 1
      and drow = "[''Digital'' \<mapsto> 1.0, ''Physical'' \<mapsto> 1.0, ''Testimonial'' \<mapsto> 1.0]",
      OF bias_default default_row_entry[OF assms]] .

text \<open>
  Claim C4, as the code has it. For evidence with a numeric base impact whose kind is
  Digital, Physical or Testimonial, and for every juror, \<open>calculate_impact\<close> returns the
  product of the base impact, the multiplier found for (personality, kind) and the modifier
  found for (bias, kind) by the lookup with fallback to the DEFAULT row; the multiplier is 1
  when the personality has no row and the modifier is 1 when the bias has none. The result
  is a function of the kind, the base impact, the personality and the bias alone: calls
  that agree on these four give the same result.
\<close>

theorem calculate_impact_product_on_known_kinds:
  assumes "metadata e ''impact_metric'' = Some (MNum b)"
    and "etype e \<in> {''Digital'', ''Physical'', ''Testimonial''}"
  shows "(\<exists>p m. lookup_with_default personality_multipliers (personality j) (etype e) = Some p \<and>
            lookup_with_default bias_modifiers (bias j) (etype e) = Some m \<and>
            (personality_multipliers (personality j) = None \<longrightarrow> p = 1) \<and>
            (bias_modifiers (bias j) = None \<longrightarrow> m = 1) \<and>
            calculate_impact e j = Inr (b * p * m)) \<and>
         (\<forall>e' j'. etype e' = etype e \<and>
                  metadata e' ''impact_metric'' = metadata e ''impact_metric'' \<and>
                  personality j' = personality j \<and> bias j' = bias j \<longrightarrow>
                  calculate_impact e' j' = calculate_impact e j)"
proof -
  from personality_lookup_finds[OF assms(2), of "personality j"]
  obtain p where pp:
    "lookup_with_default personality_multipliers (personality j) (etype e) = Some p \<and>
     (personality_multipliers (personality j) = None \<longrightarrow> p = 1)" ..
  from bias_lookup_finds[OF assms(2), of "bias j"]
  obtain m where mm:
    "lookup_with_default bias_modifiers (bias j) (etype e) = Some m \<and>
     (bias_modifiers (bias j) = None \<longrightarrow> m = 1)" ..
  note p = conjunct1[OF pp] conjunct2[OF pp]
  note m = conjunct1[OF mm] conjunct2[OF mm]
  have prod: "calculate_impact e j = Inr (b * p * m)"
    by (rule calculate_impact_refines_lookup[OF assms(1) p(1) m(1)])
  show ?thesis
  proof (intro conjI allI impI)
    show "\<exists>p m. lookup_with_default personality_multipliers (personality j) (etype e) = Some p \<and>
            lookup_with_default bias_modifiers (bias j) (etype e) = Some m \<and>
            (personality_multipliers (personality j) = None \<longrightarrow> p = 1) \<and>
            (bias_modifiers (bias j) = None \<longrightarrow> m = 1) \<and>
            calculate_impact e j = Inr (b * p * m)"
    proof (rule exI[of _ p], rule exI[of _ m], intro conjI)
      show "lookup_with_default personality_multipliers (personality j) (etype e) = Some p"
        by (rule p(1))
      show "lookup_with_default bias_modifiers (bias j) (etype e) = Some m"
        by (rule m(1))
      show "personality_multipliers (personality j) = None \<longrightarrow> p = 1"
        by (rule p(2))
      show "bias_modifiers (bias j) = None \<longrightarrow> m = 1"
        by (rule m(2))
      show "calculate_impact e j = Inr (b * p * m)"
        by (rule prod)
    qed
  next
    fix e' :: evidence and j' :: juror
    assume same: "etype e' = etype e \<and>
            metadata e' ''impact_metric'' = metadata e ''impact_metric'' \<and>
            personality j' = personality j \<and> bias j' = bias j"
    from same have 1: "etype e' = etype e"
      by (rule conjunct1)
    from same have 2: "metadata e' ''impact_metric'' = metadata e ''impact_metric''"
      by (rule conjunct2[THEN conjunct1])
    from same have 3: "personality j' = personality j"
      by (rule conjunct2[THEN conjunct2, THEN conjunct1])
    from same have 4: "bias j' = bias j"
      by (rule conjunct2[THEN conjunct2, THEN conjunct2])
    show "calculate_impact e' j' = calculate_impact e j"
      unfolding calculate_impact_def getitem_def 1 2 3 4 by (rule refl)
  qed
qed

theorem calculate_impact_product_on_known_kinds_witness:
  "metadata digital_evidence ''impact_metric'' = Some (MNum 2) \<and>
   etype digital_evidence \<in> {''Digital'', ''Physical'', ''Testimonial''} \<and>
   personality_multipliers (personality juror_unknown) = None \<and>
   lookup_with_default bias_modifiers (bias juror_unknown) (etype digital_evidence) = Some 0.9 \<and>
   calculate_impact digital_evidence juror_unknown = Inr (2 * 1 * 0.9)"
proof -
  have h1: "metadata digital_evidence ''impact_metric'' = Some (MNum 2)"
    by (simp add: digital_evidence_def)
  have h2: "etype digital_evidence \<in> {''Digital'', ''Physical'', ''Testimonial''}"
    by (simp add: digital_evidence_def)
  have n: "personality_multipliers (personality juror_unknown) = None"
    by (simp add: personality_multipliers_def juror_unknown_def)
  have l: "lookup_with_default bias_modifiers (bias juror_unknown) (etype digital_evidence)
             = Some 0.9"
    by (simp add: lookup_with_default_def bias_modifiers_def juror_unknown_def
        digital_evidence_def)
  from calculate_impact_product_on_known_kinds [OF h1 h2, of juror_unknown, THEN conjunct1]
  obtain p m where pm:
    "lookup_with_default personality_multipliers (personality juror_unknown)
       (etype digital_evidence) = Some p \<and>
     lookup_with_default bias_modifiers (bias juror_unknown) (etype digital_evidence) = Some m \<and>
     (personality_multipliers (personality juror_unknown) = None \<longrightarrow> p = 1) \<and>
     (bias_modifiers (bias juror_unknown) = None \<longrightarrow> m = 1) \<and>
     calculate_impact digital_evidence juror_unknown = Inr (2 * p * m)"
    by (elim exE)
  from pm l have "m = 0.9" by simp
  moreover from pm n have "p = 1" by simp
  ultimately have "calculate_impact digital_evidence juror_unknown = Inr (2 * 1 * 0.9)"
    using pm by simp
  with h1 h2 n l show ?thesis by simp
qed

text \<open>
  The claim as the specification states it fails on evidence of another kind: the juror's
  personality and bias have rows, the rows lack the kind, and instead of the DEFAULT entry
  the call raises.
\<close>

theorem calculate_impact_no_product_on_other_kind:
  "metadata documentary_evidence ''impact_metric'' = Some (MNum 3) \<and>
   etype documentary_evidence = ''Documentary'' \<and>
   calculate_impact documentary_evidence juror_b = Inl KeyError"
  by (simp add: calculate_impact_def documentary_evidence_def juror_b_def table_lookup_def
      personality_multipliers_def bias_modifiers_def getitem_def dict_get_def)

text \<open>When \<open>calculate_impact\<close> returns and when it raises.\<close>

lemma calculate_impact_computable:
  assumes "computable e"
  shows "\<exists>r. calculate_impact e j = Inr r"
proof -
  from assms obtain b where b: "metadata e ''impact_metric'' = Some (MNum b)"
    by (auto simp: computable_def split: option.splits meta_value.splits)
  from assms have k: "etype e \<in> {''Digital'', ''Physical'', ''Testimonial''}"
    by (auto simp: computable_def)
  from k table_lookup_personality_cases[of "etype e" "personality j"]
  obtain p where p: "table_lookup personality_multipliers (personality j) (etype e) = Inr p"
    by blast
  from k table_lookup_bias_cases[of "etype e" "bias j"]
  obtain m where m: "table_lookup bias_modifiers (bias j) (etype e) = Inr m"
    by blast
  from b p m show ?thesis
    by (simp add: calculate_impact_def getitem_def)
qed

lemma calculate_impact_unknown_kind:
  assumes "etype e \<notin> {''Digital'', ''Physical'', ''Testimonial''}"
  shows "calculate_impact e j = Inl KeyError"
proof -
  from assms table_lookup_personality_cases[of "etype e" "personality j"]
  have "table_lookup personality_multipliers (personality j) (etype e) = Inl KeyError"
    by blast
  then show ?thesis
    by (simp add: calculate_impact_def getitem_def split: option.splits)
qed

lemma calculate_impact_not_computable:
  assumes "\<not> computable e"
  shows "\<exists>err. calculate_impact e j = Inl err"
proof (cases "etype e \<in> {''Digital'', ''Physical'', ''Testimonial''}")
  case False
  then show ?thesis using calculate_impact_unknown_kind by blast
next
  case True
  from True table_lookup_personality_cases[of "etype e" "personality j"]
  obtain p where p: "table_lookup personality_multipliers (personality j) (etype e) = Inr p"
    by blast
  from True table_lookup_bias_cases[of "etype e" "bias j"]
  obtain m where m: "table_lookup bias_modifiers (bias j) (etype e) = Inr m"
    by blast
  from True assms have "\<not> (\<exists>b. metadata e ''impact_metric'' = Some (MNum b))"
    by (auto simp: computable_def)
  with p m show ?thesis
    by (cases "metadata e ''impact_metric''"; cases "the (metadata e ''impact_metric'')")
       (auto simp: calculate_impact_def getitem_def)
qed

text \<open>
  Claim C5, as the code has it. \<open>calculate_impact\<close> returns a result, whatever the juror's
  personality and bias strings are, for evidence with a numeric base impact whose kind is
  Digital, Physical or Testimonial; for every other kind string it raises \<open>KeyError\<close>.
\<close>

theorem calculate_impact_total_on_known_kinds:
  "(computable e \<longrightarrow> (\<exists>r. calculate_impact e j = Inr r)) \<and>
   (etype e \<notin> {''Digital'', ''Physical'', ''Testimonial''} \<longrightarrow>
      calculate_impact e j = Inl KeyError)"
  using calculate_impact_computable calculate_impact_unknown_kind by blast

theorem calculate_impact_total_on_known_kinds_witness:
  "computable digital_evidence \<and>
   (\<exists>r. calculate_impact digital_evidence juror_unknown = Inr r) \<and>
   etype test_evidence \<notin> {''Digital'', ''Physical'', ''Testimonial''} \<and>
   calculate_impact test_evidence juror_unknown = Inl KeyError"
  using calculate_impact_total_on_known_kinds [of digital_evidence juror_unknown]
    calculate_impact_total_on_known_kinds [of test_evidence juror_unknown]
  by (simp add: computable_def digital_evidence_def test_evidence_def)

text \<open>
  The claim as the specification states it fails on the evidence of the repository's own
  test template, whose kind is \<open>''Test''\<close>: the base impact is there, and the call raises.
\<close>

theorem calculate_impact_raises_on_test_kind:
  "metadata test_evidence ''impact_metric'' = Some (MNum 1) \<and>
   calculate_impact test_evidence juror_a = Inl KeyError"
  by (simp add: calculate_impact_def test_evidence_def juror_a_def table_lookup_def
      personality_multipliers_def bias_modifiers_def getitem_def dict_get_def)

subsection \<open>Evaluating evidence\<close>

text \<open>
  Claim C6. When the impact is computed, \<open>evaluate_evidence\<close> adds to the sentiment the
  impact times the factor for media attention (1.1 for the bias Favor Evidence-Based
  Arguments, 0.9 for Empathetic) times the factor for political pressure (1.1 for
  Skeptical, 0.9 for Empathetic), each factor 1 when its condition or bias is absent; the
  sum is stored as it is, not clamped, and nothing else of the juror changes.
\<close>

theorem evaluate_evidence_adjusts:
  assumes "calculate_impact ev self = Inr impact"
  shows "evaluate_evidence self ev ctx =
           Inr (self\<lparr>sentiment := sentiment self +
                  impact * media_factor ctx self * political_factor ctx self\<rparr>)"
  using assms
  by (simp add: evaluate_evidence_def media_factor_def political_factor_def
      has_condition_def Let_def split: option.splits)

theorem evaluate_evidence_adjusts_witness:
  "calculate_impact testimonial_evidence juror_b = Inr 1.95 \<and>
   evaluate_evidence juror_b testimonial_evidence both_conditions =
     Inr (juror_b\<lparr>sentiment := 1.5795\<rparr>) \<and>
   calculate_impact digital_evidence juror_c = Inr 1.8 \<and>
   evaluate_evidence juror_c digital_evidence both_conditions =
     Inr (juror_c\<lparr>sentiment := 8.98\<rparr>)"
proof -
  have b: "calculate_impact testimonial_evidence juror_b = Inr 1.95"
    by (simp add: calculate_impact_def testimonial_evidence_def juror_b_def table_lookup_def
        personality_multipliers_def bias_modifiers_def getitem_def dict_get_def)
  have c: "calculate_impact digital_evidence juror_c = Inr 1.8"
    by (simp add: calculate_impact_def digital_evidence_def juror_c_def table_lookup_def
        personality_multipliers_def bias_modifiers_def getitem_def dict_get_def)
  show ?thesis
    using b c evaluate_evidence_adjusts [OF b, of both_conditions]
      evaluate_evidence_adjusts [OF c, of both_conditions]
    by (simp add: media_factor_def political_factor_def has_condition_def both_conditions_def
        juror_b_def juror_c_def)
qed

subsection \<open>Deliberation of one juror\<close>

lemma evaluate_evidence_traits:
  "evaluate_evidence s ev ctx = Inr s' \<Longrightarrow> same_traits s' s"
  by (auto simp: evaluate_evidence_def same_traits_def Let_def split: sum.splits)

lemma deliberate_event_traits:
  "deliberate_event s event = Inr s' \<Longrightarrow> same_traits s' s"
  by (cases event) (auto dest: evaluate_evidence_traits simp: same_traits_def)

lemma deliberate_events_traits:
  "deliberate_events s events = Inr s' \<Longrightarrow> same_traits s' s"
proof (induction events arbitrary: s)
  case Nil
  then show ?case by (simp add: same_traits_def)
next
  case (Cons event events)
  then obtain s1 where 1: "deliberate_event s event = Inr s1"
    and 2: "deliberate_events s1 events = Inr s'"
    by (auto split: sum.splits)
  from Cons.IH[OF 2] deliberate_event_traits[OF 1] show ?case
    by (simp add: same_traits_def)
qed

lemma deliberate_peers_sum:
  "deliberate_peers s all_jurors =
     s\<lparr>sentiment := sentiment s + (\<Sum>other_juror\<leftarrow>others s all_jurors. influence s other_juror)\<rparr>"
proof (induction all_jurors arbitrary: s)
  case Nil
  then show ?case by (simp add: others_def)
next
  case (Cons other_juror rest)
  show ?case
  proof (cases "jid s = jid other_juror")
    case True
    with Cons.IH[of s] show ?thesis by (simp add: others_def)
  next
    case False
    let ?s1 = "s\<lparr>sentiment := sentiment s + influence s other_juror\<rparr>"
    have o: "others ?s1 rest = others s rest" by (simp add: others_def)
    have i: "\<And>x. influence ?s1 x = influence s x" by (simp add: influence_def)
    from False Cons.IH[of ?s1] show ?thesis
      by (simp add: o i others_def[of s "other_juror # rest"] add.assoc)
        (simp add: others_def)
  qed
qed

text \<open>
  Claim C7. A \<open>deliberate\<close> call that returns has replayed the events and then added, for
  each entry of the passed list whose id differs from the juror's own, once per entry, the
  term (other persuasiveness - own persuasiveness) * 0.5, before clamping. The term a juror
  A receives from B is the negation of the term B receives from A.
\<close>

theorem deliberate_peer_influence:
  "(deliberate self events all_jurors = Inr self' \<longrightarrow>
      (\<exists>self1. deliberate_events self events = Inr self1 \<and>
         sentiment self' =
           max (min (sentiment self1 +
                  (\<Sum>other_juror\<leftarrow>others self all_jurors.
                      (persuasiveness other_juror - persuasiveness self) * 0.5)) 5) (- 5))) \<and>
   deliberate_peers self all_jurors =
     self\<lparr>sentiment := sentiment self +
            (\<Sum>other_juror\<leftarrow>others self all_jurors.
                (persuasiveness other_juror - persuasiveness self) * 0.5)\<rparr> \<and>
   influence a b = (persuasiveness b - persuasiveness a) * 0.5 \<and>
   influence a b = - influence b a"
proof -
  have peers: "\<And>s. deliberate_peers s all_jurors =
     s\<lparr>sentiment := sentiment s +
            (\<Sum>other_juror\<leftarrow>others s all_jurors.
                (persuasiveness other_juror - persuasiveness s) * 0.5)\<rparr>"
    using deliberate_peers_sum by (simp add: influence_def)
  have "\<exists>self1. deliberate_events self events = Inr self1 \<and>
         sentiment self' =
           max (min (sentiment self1 +
                  (\<Sum>other_juror\<leftarrow>others self all_jurors.
                      (persuasiveness other_juror - persuasiveness self) * 0.5)) 5) (- 5)"
    if d: "deliberate self events all_jurors = Inr self'"
  proof -
    from d obtain self1 where 1: "deliberate_events self events = Inr self1"
      by (auto simp: deliberate_def split: sum.splits)
    from deliberate_events_traits[OF 1]
    have t: "jid self1 = jid self" "persuasiveness self1 = persuasiveness self"
      by (simp_all add: same_traits_def)
    then have o: "others self1 all_jurors = others self all_jurors"
      by (simp add: others_def)
    from d 1 have "sentiment self' =
        max (min (sentiment (deliberate_peers self1 all_jurors)) 5) (- 5)"
      by (auto simp: deliberate_def Let_def)
    with 1 show ?thesis
      by (simp add: peers[of self1] o t)
  qed
  moreover have "influence a b = - influence b a"
    unfolding influence_def by argo
  ultimately show ?thesis
    using peers[of self] by (simp add: influence_def)
qed

theorem deliberate_peer_influence_witness:
  "deliberate juror_a [WitnessTestimony 2] [juror_a, juror_b, juror_c] =
     Inr (juror_a\<lparr>sentiment := 2.75\<rparr>) \<and>
   deliberate_events juror_a [WitnessTestimony 2] = Inr (juror_a\<lparr>sentiment := 2\<rparr>) \<and>
   others juror_a [juror_a, juror_b, juror_c] = [juror_b, juror_c] \<and>
   influence juror_a juror_b = 0.5 \<and> influence juror_b juror_a = - 0.5"
proof -
  have d: "deliberate juror_a [WitnessTestimony 2] [juror_a, juror_b, juror_c] =
     Inr (juror_a\<lparr>sentiment := 2.75\<rparr>)"
    by (simp add: deliberate_def influence_def juror_a_def juror_b_def juror_c_def)
  show ?thesis
    using d deliberate_peer_influence
      [of juror_a "[WitnessTestimony 2]" "[juror_a, juror_b, juror_c]"
          "juror_a\<lparr>sentiment := 2.75\<rparr>" juror_a juror_b]
    by (simp add: others_def influence_def juror_a_def juror_b_def juror_c_def)
qed

text \<open>
  Claim C10. When the persuasiveness of the juror and of every entry of the list lies in
  [0.5, 1.5], each influence term is at most 0.5 in absolute value, and the peer pass of one
  call moves the sentiment by at most 0.5 times the number of entries with another id.
\<close>

theorem peer_influence_bounded:
  assumes "\<forall>j \<in> set (self # all_jurors). 0.5 \<le> persuasiveness j \<and> persuasiveness j \<le> 1.5"
  shows "(\<forall>other_juror \<in> set all_jurors. \<bar>influence self other_juror\<bar> \<le> 0.5) \<and>
         \<bar>sentiment (deliberate_peers self all_jurors) - sentiment self\<bar>
           \<le> 0.5 * real (length (others self all_jurors))"
proof -
  have each: "\<bar>influence self other_juror\<bar> \<le> 0.5" if "other_juror \<in> set all_jurors"
    for other_juror
  proof -
    from assms that have "0.5 \<le> persuasiveness other_juror" "persuasiveness other_juror \<le> 1.5"
      "0.5 \<le> persuasiveness self" "persuasiveness self \<le> 1.5"
      by auto
    then show ?thesis by (simp add: influence_def abs_le_iff)
  qed
  have "\<bar>\<Sum>other_juror\<leftarrow>xs. influence self other_juror\<bar> \<le> real (length xs) / 2"
    if "set xs \<subseteq> set all_jurors" for xs
    using that
  proof (induction xs)
    case Nil
    then show ?case by simp
  next
    case (Cons x xs)
    from Cons.prems each[of x] have a: "\<bar>influence self x\<bar> \<le> 1 / 2"
      by simp
    from Cons have s: "\<bar>\<Sum>other_juror\<leftarrow>xs. influence self other_juror\<bar> \<le> real (length xs) / 2"
      by simp
    have e: "(\<Sum>other_juror\<leftarrow>x # xs. influence self other_juror) =
               influence self x + (\<Sum>other_juror\<leftarrow>xs. influence self other_juror)"
      by simp
    have l: "real (length (x # xs)) = 1 + real (length xs)"
      by simp
    show ?case unfolding e l using a s by argo
  qed
  from this[of "others self all_jurors"]
  have "\<bar>\<Sum>other_juror\<leftarrow>others self all_jurors. influence self other_juror\<bar>
          \<le> 0.5 * real (length (others self all_jurors))"
    by (simp add: others_def)
  then show ?thesis
    using each by (simp add: deliberate_peers_sum)
qed

theorem peer_influence_bounded_witness:
  "0.5 \<le> persuasiveness juror_a \<and> persuasiveness juror_a \<le> 1.5 \<and>
   0.5 \<le> persuasiveness juror_b \<and> persuasiveness juror_b \<le> 1.5 \<and>
   0.5 \<le> persuasiveness juror_c \<and> persuasiveness juror_c \<le> 1.5 \<and>
   \<bar>influence juror_a juror_b\<bar> \<le> 0.5 \<and>
   \<bar>sentiment (deliberate_peers juror_a [juror_a, juror_b, juror_c]) - sentiment juror_a\<bar>
      \<le> 0.5 * real (length (others juror_a [juror_a, juror_b, juror_c]))"
proof -
  have h: "\<forall>j \<in> set (juror_a # [juror_a, juror_b, juror_c]).
      0.5 \<le> persuasiveness j \<and> persuasiveness j \<le> 1.5"
    by (simp add: juror_a_def juror_b_def juror_c_def)
  show ?thesis
    using h peer_influence_bounded [OF h] by simp
qed

text \<open>The replay returns on every log whose evidence is computable.\<close>

lemma evaluate_evidence_returns:
  "computable ev \<Longrightarrow> \<exists>s'. evaluate_evidence s ev ctx = Inr s'"
  using calculate_impact_computable[of ev s]
  by (auto simp: evaluate_evidence_def Let_def)

lemma deliberate_event_returns:
  "replayable event \<Longrightarrow> \<exists>s'. deliberate_event s event = Inr s'"
  by (cases event) (auto dest: evaluate_evidence_returns)

lemma deliberate_events_returns:
  "list_all replayable events \<Longrightarrow> \<exists>s'. deliberate_events s events = Inr s'"
proof (induction events arbitrary: s)
  case Nil
  then show ?case by simp
next
  case (Cons event events)
  then obtain s1 where "deliberate_event s event = Inr s1"
    using deliberate_event_returns[of event s] by auto
  with Cons show ?case by simp
qed

text \<open>
  Claim C3. A \<open>deliberate\<close> call returns on every log whose evidence is computable, for
  every juror, peer list and starting sentiment, and the sentiment it leaves lies in
  [-5, 5].
\<close>

theorem deliberate_clamps_sentiment:
  "(list_all replayable events \<longrightarrow> (\<exists>self'. deliberate self events all_jurors = Inr self')) \<and>
   (\<forall>self'. deliberate self events all_jurors = Inr self' \<longrightarrow>
      - 5 \<le> sentiment self' \<and> sentiment self' \<le> 5)"
proof -
  have "\<exists>self'. deliberate self events all_jurors = Inr self'" if "list_all replayable events"
    using deliberate_events_returns[OF that, of self]
    by (auto simp: deliberate_def Let_def)
  moreover have "- 5 \<le> sentiment self' \<and> sentiment self' \<le> 5"
    if "deliberate self events all_jurors = Inr self'" for self'
    using that by (auto simp: deliberate_def Let_def split: sum.splits)
  ultimately show ?thesis by blast
qed

theorem deliberate_clamps_sentiment_witness:
  "list_all replayable
     [EvidencePresented digital_evidence both_conditions 1.8, WitnessTestimony 2] \<and>
   deliberate juror_c
     [EvidencePresented digital_evidence both_conditions 1.8, WitnessTestimony 2]
     [juror_a, juror_b, juror_c] = Inr (juror_c\<lparr>sentiment := 5\<rparr>) \<and>
   - 5 \<le> sentiment (juror_c\<lparr>sentiment := 5\<rparr>) \<and> sentiment (juror_c\<lparr>sentiment := 5\<rparr>) \<le> 5"
proof -
  have c: "calculate_impact digital_evidence juror_c = Inr 1.8"
    by (simp add: calculate_impact_def digital_evidence_def juror_c_def table_lookup_def
        personality_multipliers_def bias_modifiers_def getitem_def dict_get_def)
  have e: "evaluate_evidence juror_c digital_evidence both_conditions =
             Inr (juror_c\<lparr>sentiment := 8.98\<rparr>)"
    using c by (simp add: evaluate_evidence_def both_conditions_def juror_c_def)
  have d: "deliberate juror_c
     [EvidencePresented digital_evidence both_conditions 1.8, WitnessTestimony 2]
     [juror_a, juror_b, juror_c] = Inr (juror_c\<lparr>sentiment := 5\<rparr>)"
    by (simp add: deliberate_def e influence_def) (simp add: juror_a_def juror_b_def juror_c_def)
  show ?thesis
    using d deliberate_clamps_sentiment
      [of "[EvidencePresented digital_evidence both_conditions 1.8, WitnessTestimony 2]"
          juror_c "[juror_a, juror_b, juror_c]"]
    by (simp add: computable_def digital_evidence_def)
qed

subsection \<open>Opening statements in the replay\<close>

text \<open>
  Claim C2. \<open>Game.opening_statements\<close> appends an event of type \<open>opening_statement\<close> with an
  impact to the log, and the loop of \<open>deliberate\<close> has branches for \<open>evidence_presented\<close>
  and \<open>witness_testimony\<close> only: the impact of an opening statement is never added. A juror
  with sentiment 0 who deliberates on a log holding one opening statement of impact 2, with
  no peer but itself, is returned with sentiment 0, while the same impact carried by a
  witness testimony gives sentiment 2.
\<close>

theorem deliberate_ignores_opening_statement:
  "deliberate juror_a [OpeningStatement 2] [juror_a] = Inr juror_a \<and>
   sentiment juror_a = 0 \<and>
   deliberate juror_a [WitnessTestimony 2] [juror_a] = Inr (juror_a\<lparr>sentiment := 2\<rparr>)"
  by (simp add: deliberate_def juror_a_def)

subsection \<open>Order of the calls in the deliberation phase\<close>

text \<open>Whether and how a call raises is decided by the log, not by the juror.\<close>

lemma calculate_impact_error_any_juror:
  assumes "calculate_impact ev j = Inl err"
  shows "calculate_impact ev j' = Inl err"
proof (cases "etype ev \<in> {''Digital'', ''Physical'', ''Testimonial''}")
  case False
  then show ?thesis
    using assms calculate_impact_unknown_kind[of ev j] calculate_impact_unknown_kind[of ev j']
    by simp
next
  case True
  from True table_lookup_personality_cases[of "etype ev" "personality j"]
  obtain p where p: "table_lookup personality_multipliers (personality j) (etype ev) = Inr p"
    by blast
  from True table_lookup_bias_cases[of "etype ev" "bias j"]
  obtain m where m: "table_lookup bias_modifiers (bias j) (etype ev) = Inr m"
    by blast
  from True table_lookup_personality_cases[of "etype ev" "personality j'"]
  obtain p' where p': "table_lookup personality_multipliers (personality j') (etype ev) = Inr p'"
    by blast
  from True table_lookup_bias_cases[of "etype ev" "bias j'"]
  obtain m' where m': "table_lookup bias_modifiers (bias j') (etype ev) = Inr m'"
    by blast
  show ?thesis
  proof (cases "metadata ev ''impact_metric''")
    case None
    with assms show ?thesis by (simp add: calculate_impact_def getitem_def)
  next
    case (Some v)
    with assms p m p' m' show ?thesis
      by (cases v) (simp_all add: calculate_impact_def getitem_def)
  qed
qed

lemma deliberate_event_error_any_juror:
  assumes "deliberate_event s event = Inl err"
  shows "deliberate_event s' event = Inl err"
proof (cases event)
  case (EvidencePresented ev ctx imp)
  with assms have "calculate_impact ev s = Inl err"
    by (auto simp: evaluate_evidence_def Let_def split: sum.splits)
  then have "calculate_impact ev s' = Inl err"
    by (rule calculate_impact_error_any_juror)
  with EvidencePresented show ?thesis
    by (simp add: evaluate_evidence_def)
next
  case (WitnessTestimony imp)
  with assms show ?thesis by simp
next
  case (OpeningStatement imp)
  with assms show ?thesis by simp
qed

lemma deliberate_events_error_any_juror:
  "deliberate_events s events = Inl err \<Longrightarrow> deliberate_events s' events = Inl err"
proof (induction events arbitrary: s s')
  case Nil
  then show ?case by simp
next
  case (Cons event events)
  show ?case
  proof (cases "deliberate_event s event")
    case (Inl e)
    with Cons.prems have "e = err" by simp
    with Inl deliberate_event_error_any_juror[of s event err s'] show ?thesis by simp
  next
    case (Inr s1)
    with Cons.prems have 1: "deliberate_events s1 events = Inl err" by simp
    show ?thesis
    proof (cases "deliberate_event s' event")
      case (Inl e)
      from deliberate_event_error_any_juror[OF Inl, of s] Inr show ?thesis by simp
    next
      case (Inr s1')
      with Cons.IH[OF 1, of s1'] show ?thesis by simp
    qed
  qed
qed

lemma deliberate_error_any_call:
  assumes "deliberate s events js = Inl err"
  shows "deliberate s' events js' = Inl err"
proof -
  from assms have "deliberate_events s events = Inl err"
    by (auto simp: deliberate_def Let_def split: sum.splits)
  then have "deliberate_events s' events = Inl err"
    by (rule deliberate_events_error_any_juror)
  then show ?thesis by (simp add: deliberate_def)
qed

text \<open>A call reads the ids and the persuasiveness of the list it is handed, nothing else.\<close>

lemma others_same_traits:
  "list_all2 same_traits js js' \<Longrightarrow>
   (\<Sum>other_juror\<leftarrow>others s js. influence s other_juror) =
   (\<Sum>other_juror\<leftarrow>others s js'. influence s other_juror)"
  by (induction rule: list_all2_induct)
     (auto simp: others_def same_traits_def influence_def)

lemma deliberate_same_traits:
  "list_all2 same_traits js js' \<Longrightarrow> deliberate s events js = deliberate s events js'"
  by (simp add: deliberate_def deliberate_peers_sum others_same_traits[of js js'] Let_def
      split: sum.splits)

text \<open>A call keeps the traits of the juror it is made on.\<close>

lemma deliberate_traits:
  assumes "deliberate s events js = Inr s'"
  shows "same_traits s' s"
proof -
  from assms obtain s1 where 1: "deliberate_events s events = Inr s1"
    and 2: "s' = (deliberate_peers s1 js)\<lparr>sentiment :=
               max (min (sentiment (deliberate_peers s1 js)) 5) (- 5)\<rparr>"
    by (auto simp: deliberate_def Let_def split: sum.splits)
  from deliberate_events_traits[OF 1] 2 show ?thesis
    by (simp add: same_traits_def deliberate_peers_sum)
qed

lemma same_traits_refl: "same_traits s s"
  by (simp add: same_traits_def)

lemma same_traits_trans: "same_traits s t \<Longrightarrow> same_traits t u \<Longrightarrow> same_traits s u"
  by (simp add: same_traits_def)

lemma update_same_traits:
  assumes "list_all2 same_traits js js0" and "i < length js" and "same_traits s' (js ! i)"
  shows "list_all2 same_traits (js[i := s']) js0"
proof -
  from assms(1,2) have "same_traits (js ! i) (js0 ! i)"
    by (simp add: list_all2_nthD)
  with assms(3) have "same_traits s' (js0 ! i)"
    by (rule same_traits_trans)
  with assms(1) have "list_all2 same_traits (js[i := s']) (js0[i := js0 ! i])"
    by (rule list_all2_update_cong)
  then show ?thesis by simp
qed

text \<open>
  When the calls return, the calls made in any order of distinct positions leave at each
  position called the result of the call on the initial list, and the other positions as
  they were.
\<close>

lemma deliberate_in_order_result:
  assumes returns: "\<And>s js. \<exists>s'. deliberate s events js = Inr s'"
  shows "distinct order \<Longrightarrow> set order \<subseteq> {..<length js0} \<Longrightarrow>
         list_all2 same_traits js js0 \<Longrightarrow> (\<forall>i \<in> set order. js ! i = js0 ! i) \<Longrightarrow>
         \<exists>js'. deliberate_in_order order events js = Inr js' \<and> length js' = length js0 \<and>
           (\<forall>i < length js0. js' ! i =
              (if i \<in> set order then projr (deliberate (js0 ! i) events js0) else js ! i))"
proof (induction order arbitrary: js)
  case Nil
  then show ?case by (auto dest: list_all2_lengthD)
next
  case (Cons i order)
  from Cons.prems have len: "length js = length js0"
    by (auto dest: list_all2_lengthD)
  from Cons.prems have i: "i < length js0" "i \<notin> set order" "js ! i = js0 ! i"
    by auto
  from returns obtain s' where s': "deliberate (js0 ! i) events js0 = Inr s'"
    by blast
  from Cons.prems(3) have call: "deliberate (js ! i) events js = Inr s'"
    using s' i(3) deliberate_same_traits[of js js0 "js0 ! i" events] by simp
  let ?js1 = "js[i := s']"
  from deliberate_traits[OF call] Cons.prems(3) i(1) len
  have t1: "list_all2 same_traits ?js1 js0"
    by (simp add: update_same_traits)
  have u1: "\<forall>k \<in> set order. ?js1 ! k = js0 ! k"
  proof
    fix k assume k: "k \<in> set order"
    with i(2) have "k \<noteq> i" by auto
    then have "?js1 ! k = js ! k" by simp
    with k Cons.prems(4) show "?js1 ! k = js0 ! k" by simp
  qed
  from Cons.prems have "distinct order" "set order \<subseteq> {..<length js0}"
    by auto
  from Cons.IH[OF this t1 u1]
  obtain js' where r: "deliberate_in_order order events ?js1 = Inr js'"
    "length js' = length js0"
    "\<forall>k < length js0. js' ! k =
       (if k \<in> set order then projr (deliberate (js0 ! k) events js0) else ?js1 ! k)"
    by blast
  have "js' ! k =
       (if k \<in> set (i # order) then projr (deliberate (js0 ! k) events js0) else js ! k)"
    if "k < length js0" for k
    using r(3) that i len s' by (cases "k = i") auto
  with r(1,2) call show ?case by simp
qed

text \<open>
  Claim C8. The deliberation phase gives the same result, error or jury, whatever the
  order in which the jurors are called, each exactly once: for every jury and every order
  that lists each position of the juror list once, the phase run in that order equals the
  phase as the source runs it. The sentiments, and with them the verdict, are then the same.
\<close>

theorem deliberate_phase_order_independent:
  assumes "distinct order" and "set order = {..<length (jurors jury)}"
  shows "deliberate_phase_in_order order jury = deliberate_phase jury"
proof -
  let ?js0 = "jurors jury"
  let ?ev = "trial_events jury"
  let ?n = "length ?js0"
  have "deliberate_in_order order ?ev ?js0 = deliberate_in_order [0..<?n] ?ev ?js0"
  proof (cases "?n = 0")
    case True
    with assms show ?thesis by simp
  next
    case False
    then obtain i rest where order: "order = i # rest"
      using assms(2) by (cases order) auto
    from False obtain rest0 where upt: "[0..<?n] = 0 # rest0"
      by (cases "[0..<?n]") (auto simp: upt_rec)
    show ?thesis
    proof (cases "deliberate (?js0 ! 0) ?ev ?js0")
      case (Inl err)
      from deliberate_error_any_call[OF Inl, of "?js0 ! i" ?js0] Inl
      show ?thesis by (simp add: order upt)
    next
      case (Inr s0)
      have returns: "\<exists>s'. deliberate s ?ev js = Inr s'" for s js
      proof (cases "deliberate s ?ev js")
        case (Inl err)
        from deliberate_error_any_call[OF Inl, of "?js0 ! 0" ?js0] Inr show ?thesis by simp
      next
        case (Inr s')
        then show ?thesis by blast
      qed
      have refl: "list_all2 same_traits ?js0 ?js0"
        by (simp add: list_all2_refl same_traits_refl)
      have sub1: "set order \<subseteq> {..<?n}" and all1: "\<forall>k \<in> set order. ?js0 ! k = ?js0 ! k"
        using assms(2) by auto
      have sub2: "set [0..<?n] \<subseteq> {..<?n}" and all2: "\<forall>k \<in> set [0..<?n]. ?js0 ! k = ?js0 ! k"
        and dist2: "distinct [0..<?n]"
        by auto
      have in1: "\<And>k. k < ?n \<Longrightarrow> k \<in> set order"
        using assms(2) by auto
      from deliberate_in_order_result[of ?ev order ?js0 ?js0, OF returns assms(1) sub1 refl all1] in1
      obtain js1 where 1: "deliberate_in_order order ?ev ?js0 = Inr js1" "length js1 = ?n"
        "\<forall>k < ?n. js1 ! k = projr (deliberate (?js0 ! k) ?ev ?js0)"
        by auto
      from deliberate_in_order_result[of ?ev "[0..<?n]" ?js0 ?js0, OF returns dist2 sub2 refl all2]
      obtain js2 where 2: "deliberate_in_order [0..<?n] ?ev ?js0 = Inr js2" "length js2 = ?n"
        "\<forall>k < ?n. js2 ! k = projr (deliberate (?js0 ! k) ?ev ?js0)"
        by auto
      have "js1 = js2"
      proof (rule nth_equalityI)
        show "length js1 = length js2" using 1(2) 2(2) by simp
      next
        fix k assume "k < length js1"
        with 1(2) have "k < ?n" by simp
        with 1(3) 2(3) show "js1 ! k = js2 ! k" by simp
      qed
      with 1(1) 2(1) show ?thesis by simp
    qed
  qed
  then show ?thesis
    by (simp add: deliberate_phase_in_order_def deliberate_phase_def)
qed

theorem deliberate_phase_order_independent_witness:
  "distinct [2, 0, 1 :: nat] \<and> set [2, 0, 1] = {..<length (jurors sample_jury)} \<and>
   deliberate_phase_in_order [2, 0, 1] sample_jury = deliberate_phase sample_jury"
proof -
  have h: "set [2, 0, 1] = {..<length (jurors sample_jury)}"
    by (auto simp: sample_jury_def)
  show ?thesis
    using h deliberate_phase_order_independent [of "[2, 0, 1]" sample_jury]
    by simp
qed

subsection \<open>Writes to the sentiment from the game flow\<close>

lemma add_to_every_juror_zero: "add_to_every_juror 0 js = js"
  by (simp add: add_to_every_juror_def)

lemma add_to_every_juror_add:
  "add_to_every_juror a (add_to_every_juror b js) = add_to_every_juror (b + a) js"
  by (simp add: add_to_every_juror_def add.assoc)

text \<open>The pairs, in the order of the two loops, on which the synergy message is printed.\<close>

lemma synergy_inner_count:
  "synergy_inner item rest js = Inr js' \<Longrightarrow>
   js' = add_to_every_juror
           (real (length (filter (\<lambda>other. synergy_activated item other = Inr True) rest))) js"
proof (induction rest arbitrary: js)
  case Nil
  then show ?case by (simp add: add_to_every_juror_zero)
next
  case (Cons other rest)
  then obtain activated where a: "synergy_activated item other = Inr activated"
    and r: "synergy_inner item rest (if activated then add_to_every_juror 1 js else js) = Inr js'"
    by (auto split: sum.splits)
  from Cons.IH[OF r] a show ?case
    by (cases activated) (simp_all add: add_to_every_juror_add)
qed

lemma synergy_outer_count:
  "synergy_outer items selected js = Inr js' \<Longrightarrow>
   js' = add_to_every_juror
           (real (length (filter (\<lambda>(item, other). synergy_activated item other = Inr True)
                            (List.product items selected)))) js"
proof (induction items arbitrary: js)
  case Nil
  then show ?case by (simp add: add_to_every_juror_zero)
next
  case (Cons item items)
  then obtain js1 where i: "synergy_inner item selected js = Inr js1"
    and o: "synergy_outer items selected js1 = Inr js'"
    by (auto split: sum.splits)
  from Cons.IH[OF o] synergy_inner_count[OF i] show ?case
    by (simp add: add_to_every_juror_add filter_map o_def)
qed

text \<open>
  Claim C9, as the code has it. Besides the juror's own \<open>evaluate_evidence\<close> and
  \<open>deliberate\<close>, the game flow writes the sentiment directly: the synergy check of
  \<open>Game.examine_witnesses\<close>, when it returns, has added 1 to the sentiment of every juror
  for each ordered pair of selected evidence on which it is activated, and has left every
  other field of the jurors as it was.
\<close>

theorem synergy_check_writes_sentiment:
  assumes "examine_witnesses_synergy selected jury = Inr jury'"
  shows "jurors jury' =
        map (\<lambda>juror. juror\<lparr>sentiment := sentiment juror +
               real (length (filter (\<lambda>(item, other). synergy_activated item other = Inr True)
                               (List.product selected selected)))\<rparr>) (jurors jury)"
proof -
  from assms obtain js where js: "synergy_outer selected selected (jurors jury) = Inr js"
    and j: "jury' = jury\<lparr>jurors := js\<rparr>"
    by (auto simp: examine_witnesses_synergy_def split: sum.splits)
  from synergy_outer_count[OF js] j show ?thesis
    by (simp add: add_to_every_juror_def)
qed

lemma synergy_sample_run:
  "examine_witnesses_synergy sample_selection sample_jury =
     Inr (sample_jury\<lparr>jurors := add_to_every_juror 2 (jurors sample_jury)\<rparr>)"
proof -
  have a: "synergy_activated (''Server logs'', digital_evidence) (''Clerk'', testimonial_evidence)
             = Inr True"
    by (simp add: digital_evidence_def testimonial_evidence_def getitem_def)
  have b: "synergy_activated (''Clerk'', testimonial_evidence) (''Server logs'', digital_evidence)
             = Inr True"
    by (simp add: digital_evidence_def testimonial_evidence_def getitem_def)
  have c: "synergy_activated (''Server logs'', digital_evidence) (''Server logs'', digital_evidence)
             = Inr False"
    by simp
  have d: "synergy_activated (''Clerk'', testimonial_evidence) (''Clerk'', testimonial_evidence)
             = Inr False"
    by simp
  show ?thesis
    by (simp add: examine_witnesses_synergy_def sample_selection_def a b c d
        add_to_every_juror_def del: synergy_activated.simps)
qed

theorem synergy_check_writes_sentiment_witness:
  "examine_witnesses_synergy sample_selection sample_jury =
     Inr (sample_jury\<lparr>jurors := add_to_every_juror 2 (jurors sample_jury)\<rparr>) \<and>
   length (filter (\<lambda>(item, other). synergy_activated item other = Inr True)
             (List.product sample_selection sample_selection)) = 2 \<and>
   map persuasiveness (add_to_every_juror 2 (jurors sample_jury)) = [0.5, 1.5, 1]"
proof -
  have k: "length (filter (\<lambda>(item, other). synergy_activated item other = Inr True)
             (List.product sample_selection sample_selection)) = 2"
    by (simp add: sample_selection_def digital_evidence_def testimonial_evidence_def
        getitem_def)
  show ?thesis
    using k synergy_sample_run synergy_check_writes_sentiment [OF synergy_sample_run]
    by (simp add: sample_jury_def juror_a_def juror_b_def juror_c_def add_to_every_juror_def)
qed

text \<open>
  The claim as the specification states it fails on two selected pieces of evidence that
  name each other's kind as synergy: the check runs in \<open>Game.examine_witnesses\<close>, outside
  the jurors' own methods, and every sentiment of the sample jury has moved by 2.
\<close>

theorem synergy_check_moves_sentiment:
  "map sentiment (jurors sample_jury) = [0, 0, 7] \<and>
   examine_witnesses_synergy sample_selection sample_jury =
     Inr (sample_jury\<lparr>jurors := add_to_every_juror 2 (jurors sample_jury)\<rparr>) \<and>
   map sentiment (add_to_every_juror 2 (jurors sample_jury)) = [2, 2, 9]"
  using synergy_sample_run
  by (simp add: sample_jury_def juror_a_def juror_b_def juror_c_def add_to_every_juror_def)

end
